theory Spec2Isabelle
  imports Main
begin

section \<open>The Telegram Bot API proxy worker (handleRequest in scripts/railway-deploy.js)\<close>

text \<open>
  The worker is one function, \<open>handleRequest(request, env)\<close>, with two helpers,
  \<open>corsHeaders()\<close> and \<open>filterHeaders(headers)\<close>. It is embedded below as a HOL
  function over explicit data.

  Conventions of the embedding.
  \<^item> A JavaScript string is a \<open>string\<close>; each \<open>char\<close> stands for the UTF-16 code unit
    of the same value, so the model covers the strings whose code units are below 256.
  \<^item> \<open>new URL(request.url)\<close> is read through the two parts the handler uses,
    \<open>url.pathname\<close> and \<open>url.search\<close>, which are fields of the inbound request.
  \<^item> A \<open>Headers\<close> object is its header list, the (name, value) entries in order; the
    \<open>headers\<close> of the inbound request are the entries that iterating \<open>request.headers\<close>
    yields. Names are compared without regard to ASCII case.
  \<^item> A body is \<open>None\<close> for \<open>null\<close> or \<open>undefined\<close>.
  \<^item> \<open>fetch\<close> is a parameter: it maps the outbound request either to the message of
    the error it throws (\<open>Inl\<close>) or to the upstream response (\<open>Inr\<close>). It is the only
    operation that can throw; the constructors of the runtime (\<open>URL\<close>, \<open>Request\<close>,
    \<open>Response\<close>, \<open>Headers\<close>) are taken to succeed.
  \<^item> The handler returns what it returns or throws (\<open>Inr\<close> a response, \<open>Inl\<close> an
    uncaught error message) together with the list of requests it passed to \<open>fetch\<close>.
\<close>

subsection \<open>Data\<close>

type_synonym headers = "(string \<times> string) list"

record request =
  req_method :: string
  pathname :: string
  search :: string
  headers :: headers
  body :: "string option"

record telegram_request =
  tg_url :: string
  tg_method :: string
  tg_headers :: headers
  tg_body :: "string option"

record response =
  status :: nat
  statusText :: string
  resp_headers :: headers
  resp_body :: "string option"

record env =
  ALLOWED_TOKENS :: "string option"

type_synonym fetch = "telegram_request \<Rightarrow> string + response"

subsection \<open>String operations of the runtime\<close>

text \<open>\<open>String.prototype.startsWith\<close>.\<close>

definition startsWith :: "string \<Rightarrow> string \<Rightarrow> bool" where
  "startsWith s p = (take (length p) s = p)"

text \<open>
  \<open>String.prototype.toLowerCase\<close> on code units below 256: the letters A-Z and the
  Latin-1 capitals U+00C0..U+00DE (without the multiplication sign U+00D7) move up by 32.
\<close>

definition toLowerCase_char :: "char \<Rightarrow> char" where
  "toLowerCase_char c =
     (let n = (of_char c :: nat)
      in if (65 \<le> n \<and> n \<le> 90) \<or> (192 \<le> n \<and> n \<le> 214) \<or> (216 \<le> n \<and> n \<le> 222)
         then char_of (n + 32) else c)"

definition toLowerCase :: "string \<Rightarrow> string" where
  "toLowerCase s = map toLowerCase_char s"

text \<open>
  \<open>String.prototype.trim\<close> strips white space and line terminators from both ends;
  below 256 these are TAB, LF, VT, FF, CR, SPACE and NBSP.
\<close>

definition isWhiteSpace :: "char \<Rightarrow> bool" where
  "isWhiteSpace c = (c \<in> set [CHR 0x09, CHR 0x0A, CHR 0x0B, CHR 0x0C, CHR 0x0D, CHR 0x20, CHR 0xA0])"

definition trim :: "string \<Rightarrow> string" where
  "trim s = rev (dropWhile isWhiteSpace (rev (dropWhile isWhiteSpace s)))"

text \<open>
  \<open>s.split(',')\<close>: the fields between the commas, so a string with n commas gives
  n + 1 fields and the empty string gives one empty field.
\<close>

fun split :: "char \<Rightarrow> string \<Rightarrow> string list" where
  "split sep [] = [[]]"
| "split sep (c # cs) =
     (if c = sep then [] # split sep cs
      else (case split sep cs of [] \<Rightarrow> [[c]] | w # ws \<Rightarrow> (c # w) # ws))"

text \<open>\<open>Array.prototype.includes\<close> on an array of strings.\<close>

definition array_includes :: "string list \<Rightarrow> string \<Rightarrow> bool" where
  "array_includes xs x = (x \<in> set xs)"

text \<open>
  \<open>url.pathname.match(/^\/bot([^/]+)/)\<close>: the result is the first capture group, the
  longest non-empty run of characters other than \<open>/\<close> right after the literal \<open>/bot\<close>;
  \<open>None\<close> is JavaScript's \<open>null\<close> (no match).
\<close>

definition match_bot_token :: "string \<Rightarrow> string option" where
  "match_bot_token p =
     (if startsWith p ''/bot''
      then (let token = takeWhile (\<lambda>c. c \<noteq> CHR ''/'') (drop 4 p)
            in if token = [] then None else Some token)
      else None)"

subsection \<open>JSON.stringify on an object of string fields\<close>

text \<open>
  \<open>QuoteJSONString\<close> of ECMA-262: backspace, tab, line feed, form feed, carriage
  return, the double quote and the backslash get their two-character escapes, any other
  code unit below 0x20 becomes \<open>\u\<close> and four lower-case hexadecimal digits, everything
  else is copied.
\<close>

definition hex_digit :: "nat \<Rightarrow> char" where
  "hex_digit n = (if n < 10 then char_of (48 + n) else char_of (87 + n))"

definition UnicodeEscape :: "char \<Rightarrow> string" where
  "UnicodeEscape c =
     (let n = (of_char c :: nat)
      in [CHR 0x5C, CHR ''u'', hex_digit (n div 4096), hex_digit (n div 256 mod 16),
          hex_digit (n div 16 mod 16), hex_digit (n mod 16)])"

definition quote_char :: "char \<Rightarrow> string" where
  "quote_char c =
     (if c = CHR 0x08 then [CHR 0x5C, CHR ''b'']
      else if c = CHR 0x09 then [CHR 0x5C, CHR ''t'']
      else if c = CHR 0x0A then [CHR 0x5C, CHR ''n'']
      else if c = CHR 0x0C then [CHR 0x5C, CHR ''f'']
      else if c = CHR 0x0D then [CHR 0x5C, CHR ''r'']
      else if c = CHR 0x22 then [CHR 0x5C, CHR 0x22]
      else if c = CHR 0x5C then [CHR 0x5C, CHR 0x5C]
      else if (of_char c :: nat) < 32 then UnicodeEscape c
      else [c])"

definition QuoteJSONString :: "string \<Rightarrow> string" where
  "QuoteJSONString s = [CHR 0x22] @ concat (map quote_char s) @ [CHR 0x22]"

fun join_comma :: "string list \<Rightarrow> string" where
  "join_comma [] = []"
| "join_comma [x] = x"
| "join_comma (x # y # ys) = x @ '','' @ join_comma (y # ys)"

definition JSON_stringify :: "(string \<times> string) list \<Rightarrow> string" where
  "JSON_stringify obj =
     ''{'' @ join_comma (map (\<lambda>(k, v). QuoteJSONString k @ '':'' @ QuoteJSONString v) obj) @ ''}''"

subsection \<open>Reading a JSON string literal back\<close>

text \<open>
  A reader for the string literals of JSON, used to say which string a serialised field
  holds: \<open>parse_json_string\<close> reads one literal at the start of its input and returns
  the string it denotes and the input left over.
\<close>

definition hex_value :: "char \<Rightarrow> nat option" where
  "hex_value c =
     (let n = (of_char c :: nat)
      in if 48 \<le> n \<and> n \<le> 57 then Some (n - 48)
         else if 97 \<le> n \<and> n \<le> 102 then Some (n - 87)
         else if 65 \<le> n \<and> n \<le> 70 then Some (n - 55)
         else None)"

definition simple_escape :: "char \<Rightarrow> char option" where
  "simple_escape e =
     (if e = CHR ''b'' then Some (CHR 0x08)
      else if e = CHR ''t'' then Some (CHR 0x09)
      else if e = CHR ''n'' then Some (CHR 0x0A)
      else if e = CHR ''f'' then Some (CHR 0x0C)
      else if e = CHR ''r'' then Some (CHR 0x0D)
      else if e = CHR 0x22 then Some (CHR 0x22)
      else if e = CHR 0x5C then Some (CHR 0x5C)
      else if e = CHR ''/'' then Some (CHR ''/'')
      else None)"

definition hex4 :: "char \<Rightarrow> char \<Rightarrow> char \<Rightarrow> char \<Rightarrow> nat option" where
  "hex4 a b c d =
     (case (hex_value a, hex_value b, hex_value c, hex_value d) of
        (Some x, Some y, Some z, Some w) \<Rightarrow> Some (4096 * x + 256 * y + 16 * z + w)
      | _ \<Rightarrow> None)"

fun push :: "char \<Rightarrow> (string \<times> string) option \<Rightarrow> (string \<times> string) option" where
  "push c None = None"
| "push c (Some (s, rest)) = Some (c # s, rest)"

fun json_string_tail :: "string \<Rightarrow> (string \<times> string) option"
  and json_escape :: "string \<Rightarrow> (string \<times> string) option" where
  "json_string_tail [] = None"
| "json_string_tail (c # cs) =
     (if c = CHR 0x22 then Some ([], cs)
      else if c = CHR 0x5C then json_escape cs
      else if (of_char c :: nat) < 32 then None
      else push c (json_string_tail cs))"
| "json_escape [] = None"
| "json_escape (e # cs) =
     (if e = CHR ''u''
      then (case cs of
              a # b # c # d # rest \<Rightarrow>
                (case hex4 a b c d of
                   Some n \<Rightarrow> if n < 256 then push (char_of n) (json_string_tail rest) else None
                 | None \<Rightarrow> None)
            | _ \<Rightarrow> None)
      else (case simple_escape e of
              Some c \<Rightarrow> push c (json_string_tail cs)
            | None \<Rightarrow> None))"

definition parse_json_string :: "string \<Rightarrow> (string \<times> string) option" where
  "parse_json_string s = (case s of [] \<Rightarrow> None | c # cs \<Rightarrow> if c = CHR 0x22 then json_string_tail cs else None)"

subsection \<open>The Headers class of the runtime\<close>

text \<open>
  Header names are compared byte-case-insensitively. \<open>Headers.prototype.set\<close>: when the
  list has the name, the first such entry takes the value and the others are removed;
  otherwise the entry is appended.
\<close>

definition byte_lowercase :: "string \<Rightarrow> string" where
  "byte_lowercase s =
     map (\<lambda>c. let n = (of_char c :: nat) in if 65 \<le> n \<and> n \<le> 90 then char_of (n + 32) else c) s"

definition same_name :: "string \<Rightarrow> string \<Rightarrow> bool" where
  "same_name a b = (byte_lowercase a = byte_lowercase b)"

fun headers_set :: "headers \<Rightarrow> string \<Rightarrow> string \<Rightarrow> headers" where
  "headers_set [] key val = [(key, val)]"
| "headers_set ((n, w) # hs) key val =
     (if same_name n key then (n, val) # filter (\<lambda>(m, _). \<not> same_name m key) hs
      else (n, w) # headers_set hs key val)"

text \<open>The values a header list holds under a name (what \<open>Headers.prototype.get\<close> joins).\<close>

definition header_values :: "headers \<Rightarrow> string \<Rightarrow> string list" where
  "header_values hs name = map snd (filter (\<lambda>(m, _). same_name m name) hs)"

subsection \<open>corsHeaders and filterHeaders\<close>

definition corsHeaders :: headers where
  "corsHeaders =
     [(''Access-Control-Allow-Origin'', ''*''),
      (''Access-Control-Allow-Methods'', ''GET, POST, PUT, DELETE, OPTIONS''),
      (''Access-Control-Allow-Headers'', ''Content-Type, Authorization''),
      (''Access-Control-Max-Age'', ''86400'')]"

definition allowedHeaders :: "string list" where
  "allowedHeaders = [''content-type'', ''accept'', ''accept-language'', ''content-length'']"

definition filterHeaders :: "headers \<Rightarrow> headers" where
  "filterHeaders hs =
     foldl (\<lambda>filtered (key, val).
              if array_includes allowedHeaders (toLowerCase key) then headers_set filtered key val
              else filtered)
           [] hs"

subsection \<open>handleRequest\<close>

text \<open>
  The allowlist block: \<open>env.ALLOWED_TOKENS\<close> is truthy when it is a non-empty string;
  the block returns the 403 response when the pattern matches and the token is not among
  the trimmed entries, and falls through otherwise.
\<close>

definition allowedTokens :: "string \<Rightarrow> string list" where
  "allowedTokens cfg = map trim (split CHR '','' cfg)"

definition token_not_allowed :: "env \<Rightarrow> string \<Rightarrow> bool" where
  "token_not_allowed e p =
     (case ALLOWED_TOKENS e of
        None \<Rightarrow> False
      | Some cfg \<Rightarrow>
          if cfg = [] then False
          else (case match_bot_token p of
                  None \<Rightarrow> False
                | Some token \<Rightarrow> \<not> array_includes (allowedTokens cfg) token))"

text \<open>The request built inside the \<open>try\<close> block.\<close>

definition telegramRequest :: "request \<Rightarrow> telegram_request" where
  "telegramRequest r =
     \<lparr>tg_url = ''https://api.telegram.org'' @ pathname r @ search r,
      tg_method = req_method r,
      tg_headers = filterHeaders (headers r),
      tg_body = (if req_method r \<noteq> ''GET'' \<and> req_method r \<noteq> ''HEAD'' then body r else None)\<rparr>"

text \<open>
  The body of the \<open>try\<close> block: one call of \<open>fetch\<close>; its error propagates (to the
  \<open>catch\<close>), its response is relayed with the CORS headers set on a copy of its headers.
\<close>

definition try_block :: "fetch \<Rightarrow> request \<Rightarrow> (string + response) \<times> telegram_request list" where
  "try_block fetch r =
     (case fetch (telegramRequest r) of
        Inl message \<Rightarrow> (Inl message, [telegramRequest r])
      | Inr upstream \<Rightarrow>
          (Inr \<lparr>status = status upstream,
                statusText = statusText upstream,
                resp_headers = foldl (\<lambda>responseHeaders (key, val). headers_set responseHeaders key val)
                                     (resp_headers upstream) corsHeaders,
                resp_body = resp_body upstream\<rparr>,
           [telegramRequest r]))"

definition catch_block :: "string \<Rightarrow> response" where
  "catch_block message =
     \<lparr>status = 502,
      statusText = [],
      resp_headers = (''Content-Type'', ''application/json'') # corsHeaders,
      resp_body = Some (JSON_stringify [(''error'', ''Failed to proxy request to Telegram''),
                                        (''message'', message)])\<rparr>"

text \<open>
  The \<open>try\<close>/\<open>catch\<close> statement: an error thrown in the block is caught and answered
  with the 502 response; the requests already sent stay sent.
\<close>

definition try_catch :: "fetch \<Rightarrow> request \<Rightarrow> (string + response) \<times> telegram_request list" where
  "try_catch fetch r =
     (case try_block fetch r of
        (Inl message, sent) \<Rightarrow> (Inr (catch_block message), sent)
      | (Inr resp, sent) \<Rightarrow> (Inr resp, sent))"

definition handleRequest :: "fetch \<Rightarrow> env \<Rightarrow> request \<Rightarrow> (string + response) \<times> telegram_request list" where
  "handleRequest fetch e r =
     (if req_method r = ''OPTIONS''
      then (Inr \<lparr>status = 200, statusText = [], resp_headers = corsHeaders, resp_body = None\<rparr>, [])
      else if pathname r = ''/'' \<or> pathname r = ''/health''
      then (Inr \<lparr>status = 200, statusText = [],
                 resp_headers = (''Content-Type'', ''application/json'') # corsHeaders,
                 resp_body = Some (JSON_stringify
                   [(''status'', ''ok''), (''service'', ''telegram-api-proxy''),
                    (''usage'', ''Replace api.telegram.org with this worker URL'')])\<rparr>, [])
      else if \<not> startsWith (pathname r) ''/bot''
      then (Inr \<lparr>status = 400, statusText = [],
                 resp_headers = (''Content-Type'', ''application/json'') # corsHeaders,
                 resp_body = Some (JSON_stringify
                   [(''error'', ''Invalid path. Expected /bot<token>/<method>''),
                    (''example'', ''/botYOUR_TOKEN/sendMessage'')])\<rparr>, [])
      else if token_not_allowed e (pathname r)
      then (Inr \<lparr>status = 403, statusText = [],
                 resp_headers = (''Content-Type'', ''application/json'') # corsHeaders,
                 resp_body = Some (JSON_stringify [(''error'', ''Token not in allowlist'')])\<rparr>, [])
      else try_catch fetch r)"

subsection \<open>Sample inputs\<close>

text \<open>
  A mock upstream that answers every request with 200 and \<open>{"ok":true}\<close> (and sends a
  CORS header of its own), one that answers every request with a 403 of its own, one whose
  connection fails, and a request builder.
\<close>

definition upstream_ok :: response where
  \<open>upstream_ok =
     \<lparr>status = 200, statusText = ''OK'',
      resp_headers = [(''content-type'', ''application/json''),
                      (''access-control-allow-origin'', ''https://example.org'')],
      resp_body = Some ''{"ok":true}''\<rparr>\<close>

definition fetch_ok :: fetch where
  "fetch_ok q = Inr upstream_ok"

definition upstream_forbidden :: response where
  \<open>upstream_forbidden =
     \<lparr>status = 403, statusText = ''Forbidden'',
      resp_headers = [(''content-type'', ''application/json'')],
      resp_body = Some ''{"error":"Token not in allowlist"}''\<rparr>\<close>

definition fetch_forbidden :: fetch where
  "fetch_forbidden q = Inr upstream_forbidden"

definition fetch_down :: fetch where
  "fetch_down q = Inl ''connection refused''"

definition sample_request :: "string \<Rightarrow> string \<Rightarrow> request" where
  \<open>sample_request m p =
     \<lparr>req_method = m, pathname = p, search = ''?chat_id=1'',
      headers = [(''accept'', ''*/*''), (''authorization'', ''Bearer s3cret''),
                 (''content-type'', ''application/json''), (''x-foo'', ''bar'')],
      body = (if m = ''GET'' \<or> m = ''HEAD'' then None else Some ''{"text":"hi"}'')\<rparr>\<close>

definition allow_T1_T2 :: env where
  "allow_T1_T2 = \<lparr>ALLOWED_TOKENS = Some ''T1, T2''\<rparr>"

definition no_allowlist :: env where
  "no_allowlist = \<lparr>ALLOWED_TOKENS = None\<rparr>"

section \<open>Lemmas about the runtime operations\<close>

subsection \<open>Header lists\<close>

text \<open>
  What \<open>set\<close> does to a header list: under the name set there is exactly the new
  value, the values under every other name stay, and a name that was absent is appended.
\<close>

lemma same_name_refl [simp]: "same_name a a"
  by (simp add: same_name_def)

lemma same_name_sym: "same_name a b = same_name b a"
  by (auto simp: same_name_def)

lemma headers_set_absent:
  "\<forall>(m, w) \<in> set hs. \<not> same_name m key \<Longrightarrow> headers_set hs key val = hs @ [(key, val)]"
  by (induction hs) auto

lemma header_values_headers_set:
  "header_values (headers_set hs key val) name =
     (if same_name name key then [val] else header_values hs name)"
proof (induction hs)
  case Nil
  show ?case by (auto simp: header_values_def same_name_def)
next
  case (Cons h hs)
  obtain n w where h: "h = (n, w)" by (cases h)
  have drop: "same_name name key \<Longrightarrow>
      filter (\<lambda>(m, _). same_name m name) (filter (\<lambda>(m, _). \<not> same_name m key) hs) = []"
    by (auto simp: filter_empty_conv same_name_def)
  have keep: "\<not> same_name name key \<Longrightarrow> same_name n key \<Longrightarrow>
      filter (\<lambda>(m, _). same_name m name) (filter (\<lambda>(m, _). \<not> same_name m key) hs) =
      filter (\<lambda>(m, _). same_name m name) hs"
    by (auto simp: same_name_def intro!: filter_cong)
  show ?case
  proof (cases "same_name n key")
    case True
    then show ?thesis using drop keep
      by (auto simp: h header_values_def same_name_def)
  next
    case False
    then show ?thesis using Cons.IH
      by (auto simp: h header_values_def same_name_def)
  qed
qed

lemma filter_headers_set_other:
  "(\<And>m w. same_name m key \<Longrightarrow> \<not> P (m, w)) \<Longrightarrow> filter P (headers_set hs key val) = filter P hs"
proof (induction hs)
  case Nil
  then show ?case by simp
next
  case (Cons h hs)
  obtain n w where h: "h = (n, w)" by (cases h)
  have "filter P (filter (\<lambda>(m, _). \<not> same_name m key) hs) = filter P hs"
    using Cons.prems by (auto intro!: filter_cong)
  then show ?case using Cons by (auto simp: h)
qed

text \<open>
  The loop of \<open>filterHeaders\<close>, from any accumulated list: when the names it is going to
  set are new, each \<open>set\<close> appends, and the loop is a filter.
\<close>

lemma filter_step_acc:
  "distinct (map (\<lambda>h. byte_lowercase (fst h)) (acc @ filter (\<lambda>(k, v). array_includes allowedHeaders (toLowerCase k)) hs)) \<Longrightarrow>
   foldl (\<lambda>filtered (key, val).
            if array_includes allowedHeaders (toLowerCase key) then headers_set filtered key val
            else filtered) acc hs
   = acc @ filter (\<lambda>(k, v). array_includes allowedHeaders (toLowerCase k)) hs"
proof (induction hs arbitrary: acc)
  case Nil
  then show ?case by simp
next
  case (Cons h hs)
  obtain k v where h: "h = (k, v)" by (cases h)
  show ?case
  proof (cases "array_includes allowedHeaders (toLowerCase k)")
    case True
    from Cons.prems True have "byte_lowercase k \<notin> (\<lambda>h. byte_lowercase (fst h)) ` set acc"
      by (simp add: h)
    then have "\<forall>(m, w) \<in> set acc. \<not> same_name m k"
      by (force simp: same_name_def)
    then have set: "headers_set acc k v = acc @ [(k, v)]"
      by (rule headers_set_absent)
    from Cons.prems True
    have "distinct (map (\<lambda>h. byte_lowercase (fst h))
            ((acc @ [(k, v)]) @ filter (\<lambda>(k, v). array_includes allowedHeaders (toLowerCase k)) hs))"
      by (auto simp: h)
    from Cons.IH [OF this] show ?thesis using True set by (simp add: h)
  next
    case False
    from Cons.prems False
    have "distinct (map (\<lambda>h. byte_lowercase (fst h))
            (acc @ filter (\<lambda>(k, v). array_includes allowedHeaders (toLowerCase k)) hs))"
      by (simp add: h)
    from Cons.IH [OF this] show ?thesis using False by (simp add: h)
  qed
qed

text \<open>The names and values of the CORS headers, in a response built directly and in a relayed one.\<close>

lemma byte_lowercase_names:
  "byte_lowercase ''Access-Control-Allow-Origin'' = ''access-control-allow-origin''"
  "byte_lowercase ''Access-Control-Allow-Methods'' = ''access-control-allow-methods''"
  "byte_lowercase ''Access-Control-Allow-Headers'' = ''access-control-allow-headers''"
  "byte_lowercase ''Access-Control-Max-Age'' = ''access-control-max-age''"
  "byte_lowercase ''Content-Type'' = ''content-type''"
  by code_simp+

lemma direct_cors_values:
  "header_values corsHeaders ''Access-Control-Allow-Origin'' = [''*'']"
  "header_values corsHeaders ''Access-Control-Allow-Methods'' = [''GET, POST, PUT, DELETE, OPTIONS'']"
  "header_values corsHeaders ''Access-Control-Allow-Headers'' = [''Content-Type, Authorization'']"
  "header_values corsHeaders ''Access-Control-Max-Age'' = [''86400'']"
  "header_values ((''Content-Type'', ''application/json'') # corsHeaders) ''Access-Control-Allow-Origin'' = [''*'']"
  "header_values ((''Content-Type'', ''application/json'') # corsHeaders) ''Access-Control-Allow-Methods'' = [''GET, POST, PUT, DELETE, OPTIONS'']"
  "header_values ((''Content-Type'', ''application/json'') # corsHeaders) ''Access-Control-Allow-Headers'' = [''Content-Type, Authorization'']"
  "header_values ((''Content-Type'', ''application/json'') # corsHeaders) ''Access-Control-Max-Age'' = [''86400'']"
  by (simp_all add: header_values_def corsHeaders_def same_name_def byte_lowercase_names)

lemma relay_cors_values:
  fixes hs :: headers
  defines "out \<equiv> foldl (\<lambda>responseHeaders (key, val). headers_set responseHeaders key val) hs corsHeaders"
  shows "header_values out ''Access-Control-Allow-Origin'' = [''*'']"
    and "header_values out ''Access-Control-Allow-Methods'' = [''GET, POST, PUT, DELETE, OPTIONS'']"
    and "header_values out ''Access-Control-Allow-Headers'' = [''Content-Type, Authorization'']"
    and "header_values out ''Access-Control-Max-Age'' = [''86400'']"
  unfolding out_def
  by (simp_all add: corsHeaders_def header_values_headers_set same_name_def byte_lowercase_names)

lemma relay_other_headers:
  "filter (\<lambda>(n, w). \<not> same_name n ''Access-Control-Allow-Origin'' \<and>
                     \<not> same_name n ''Access-Control-Allow-Methods'' \<and>
                     \<not> same_name n ''Access-Control-Allow-Headers'' \<and>
                     \<not> same_name n ''Access-Control-Max-Age'')
          (foldl (\<lambda>responseHeaders (key, val). headers_set responseHeaders key val) hs corsHeaders)
   = filter (\<lambda>(n, w). \<not> same_name n ''Access-Control-Allow-Origin'' \<and>
                     \<not> same_name n ''Access-Control-Allow-Methods'' \<and>
                     \<not> same_name n ''Access-Control-Allow-Headers'' \<and>
                     \<not> same_name n ''Access-Control-Max-Age'') hs"
  by (simp add: corsHeaders_def filter_headers_set_other)

text \<open>\<open>set\<close> introduces no name but its own, so the loop keeps to the allowed names.\<close>

lemma headers_set_names:
  "(n, w) \<in> set (headers_set hs key val) \<Longrightarrow> n = key \<or> (\<exists>w'. (n, w') \<in> set hs)"
  by (induction hs) (auto split: if_splits)

lemma filterHeaders_names_acc:
  "(n, w) \<in> set (foldl (\<lambda>filtered (key, val).
            if array_includes allowedHeaders (toLowerCase key) then headers_set filtered key val
            else filtered) acc hs) \<Longrightarrow>
   (\<exists>w'. (n, w') \<in> set acc) \<or>
   ((\<exists>w'. (n, w') \<in> set hs) \<and> array_includes allowedHeaders (toLowerCase n))"
proof (induction hs arbitrary: acc)
  case Nil
  then show ?case by auto
next
  case (Cons h hs)
  obtain k v where h: "h = (k, v)" by (cases h)
  show ?case
  proof (cases "array_includes allowedHeaders (toLowerCase k)")
    case True
    with Cons.prems have "(n, w) \<in> set (foldl (\<lambda>filtered (key, val).
            if array_includes allowedHeaders (toLowerCase key) then headers_set filtered key val
            else filtered) (headers_set acc k v) hs)"
      by (simp add: h)
    from Cons.IH [OF this] show ?thesis
      using True headers_set_names [of n _ acc k v] by (auto simp: h)
  next
    case False
    with Cons.prems have "(n, w) \<in> set (foldl (\<lambda>filtered (key, val).
            if array_includes allowedHeaders (toLowerCase key) then headers_set filtered key val
            else filtered) acc hs)"
      by (simp add: h)
    from Cons.IH [OF this] show ?thesis by (auto simp: h)
  qed
qed

lemma array_includes_allowedHeaders:
  "array_includes allowedHeaders n = (n \<in> {''content-type'', ''accept'', ''accept-language'', ''content-length''})"
  by (auto simp: array_includes_def allowedHeaders_def)

subsection \<open>split, trim and the token pattern\<close>

text \<open>
  \<open>split\<close> returns the fields of its argument: none contains the separator and joining
  them with commas gives the string back. \<open>trim\<close> removes white space at both ends and
  nothing else. The pattern returns the segment between \<open>/bot\<close> and the next \<open>/\<close>.
\<close>

lemma split_not_Nil: "split sep s \<noteq> []"
  by (induction s) (auto split: list.splits)

lemma split_no_sep: "field \<in> set (split sep s) \<Longrightarrow> sep \<notin> set field"
  by (induction s arbitrary: field) (auto split: if_splits list.splits)

lemma join_comma_Cons: "ys \<noteq> [] \<Longrightarrow> join_comma (x # ys) = x @ '','' @ join_comma ys"
  by (cases ys) auto

lemma join_comma_split: "join_comma (split CHR '','' s) = s"
proof (induction s)
  case Nil
  show ?case by simp
next
  case (Cons c s)
  show ?case
  proof (cases "c = CHR '',''")
    case True
    then show ?thesis using Cons by (simp add: join_comma_Cons split_not_Nil)
  next
    case False
    obtain w ws where sp: "split CHR '','' s = w # ws"
      using split_not_Nil [of "CHR '',''" s] by (cases "split CHR '','' s") auto
    show ?thesis using False Cons sp by (cases ws) auto
  qed
qed

lemma takeWhile_stop: "\<forall>x \<in> set xs. P x \<Longrightarrow> \<not> P y \<Longrightarrow> takeWhile P (xs @ y # ys) = xs"
  by (induction xs) auto

lemma match_bot_token_segment:
  assumes "p = ''/bot'' @ token @ rest" "CHR ''/'' \<notin> set token" "rest = [] \<or> hd rest = CHR ''/''"
  shows "match_bot_token p = (if token = [] then None else Some token)"
proof -
  have "takeWhile (\<lambda>c. c \<noteq> CHR ''/'') (token @ rest) = token"
  proof (cases rest)
    case Nil
    then show ?thesis using assms(2) by (auto simp: takeWhile_eq_all_conv)
  next
    case (Cons c cs)
    with assms(3) have "c = CHR ''/''" by simp
    then show ?thesis using assms(2) Cons by (auto intro!: takeWhile_stop)
  qed
  then show ?thesis using assms(1) by (simp add: match_bot_token_def startsWith_def)
qed

lemma trim_shape:
  "\<exists>pre post. s = pre @ trim s @ post \<and> (\<forall>c \<in> set pre. isWhiteSpace c) \<and> (\<forall>c \<in> set post. isWhiteSpace c)"
proof -
  let ?a = "takeWhile isWhiteSpace s" and ?m = "dropWhile isWhiteSpace s"
  let ?b = "rev (takeWhile isWhiteSpace (rev ?m))"
  have "?m = trim s @ ?b"
    unfolding trim_def by (metis rev_append rev_rev_ident takeWhile_dropWhile_id)
  then have "s = ?a @ trim s @ ?b" by (metis takeWhile_dropWhile_id)
  moreover have "\<forall>c \<in> set ?a. isWhiteSpace c" by (auto dest: set_takeWhileD)
  moreover have "\<forall>c \<in> set ?b. isWhiteSpace c" by (auto dest: set_takeWhileD)
  ultimately show ?thesis by blast
qed

lemma trim_ends:
  "trim s \<noteq> [] \<Longrightarrow> \<not> isWhiteSpace (hd (trim s)) \<and> \<not> isWhiteSpace (last (trim s))"
proof -
  assume ne: "trim s \<noteq> []"
  let ?m = "dropWhile isWhiteSpace s"
  let ?r = "dropWhile isWhiteSpace (rev ?m)"
  from ne have r: "?r \<noteq> []" by (simp add: trim_def)
  then have "\<not> isWhiteSpace (hd ?r)" by (rule hd_dropWhile)
  then have l: "\<not> isWhiteSpace (last (trim s))" using r by (simp add: trim_def last_rev)
  from r have "rev ?m \<noteq> []" by (metis dropWhile.simps(1))
  then have m: "?m \<noteq> []" by (metis rev.simps(1))
  then have hm: "\<not> isWhiteSpace (hd ?m)" by (rule hd_dropWhile)
  have "\<exists>b. ?m = trim s @ b"
    unfolding trim_def by (metis rev_append rev_rev_ident takeWhile_dropWhile_id)
  then have "hd ?m = hd (trim s)" using ne by auto
  with hm l show ?thesis by simp
qed

subsection \<open>Quoting a string and reading it back\<close>

text \<open>
  The literal that \<open>QuoteJSONString\<close> writes is read back as the string it was given,
  whatever follows it.
\<close>

lemma hex_value_hex_digit: "k < 16 \<Longrightarrow> hex_value (hex_digit k) = Some k"
  by (auto simp: hex_value_def hex_digit_def Let_def)

lemma hex4_UnicodeEscape:
  assumes "(of_char c :: nat) < 32"
  shows "UnicodeEscape c = [CHR 0x5C, CHR ''u'', CHR ''0'', CHR ''0'', hex_digit (of_char c div 16), hex_digit (of_char c mod 16)]"
    and "hex4 CHR ''0'' CHR ''0'' (hex_digit (of_char c div 16)) (hex_digit (of_char c mod 16)) = Some (of_char c)"
proof -
  let ?n = "of_char c :: nat"
  have d: "?n div 4096 = 0" "?n div 256 mod 16 = 0" "?n div 16 mod 16 = ?n div 16"
    using assms by auto
  have z: "hex_digit 0 = CHR ''0''" by code_simp
  show "UnicodeEscape c = [CHR 0x5C, CHR ''u'', CHR ''0'', CHR ''0'', hex_digit (?n div 16), hex_digit (?n mod 16)]"
    by (simp add: UnicodeEscape_def Let_def d z)
  have "hex_value CHR ''0'' = Some 0" by (simp add: hex_value_def)
  moreover have "hex_value (hex_digit (?n div 16)) = Some (?n div 16)"
    using assms by (intro hex_value_hex_digit) auto
  moreover have "hex_value (hex_digit (?n mod 16)) = Some (?n mod 16)"
    by (intro hex_value_hex_digit) auto
  ultimately show "hex4 CHR ''0'' CHR ''0'' (hex_digit (?n div 16)) (hex_digit (?n mod 16)) = Some ?n"
    by (simp add: hex4_def)
qed

lemma json_string_tail_quote_char:
  "json_string_tail (quote_char c @ rest) = push c (json_string_tail rest)"
proof -
  consider (special) "c \<in> {CHR 0x08, CHR 0x09, CHR 0x0A, CHR 0x0C, CHR 0x0D, CHR 0x22, CHR 0x5C}"
    | (control) "c \<notin> {CHR 0x08, CHR 0x09, CHR 0x0A, CHR 0x0C, CHR 0x0D, CHR 0x22, CHR 0x5C}" "(of_char c :: nat) < 32"
    | (plain) "c \<notin> {CHR 0x08, CHR 0x09, CHR 0x0A, CHR 0x0C, CHR 0x0D, CHR 0x22, CHR 0x5C}" "\<not> (of_char c :: nat) < 32"
    by blast
  then show ?thesis
  proof cases
    case special
    then show ?thesis by (auto simp: quote_char_def simple_escape_def)
  next
    case control
    have q: "quote_char c = UnicodeEscape c" using control by (simp add: quote_char_def)
    have lt: "(of_char c :: nat) < 256" using control(2) by simp
    show ?thesis
      unfolding q hex4_UnicodeEscape(1) [OF control(2)]
      using hex4_UnicodeEscape(2) [OF control(2)] lt by simp
  next
    case plain
    then show ?thesis by (simp add: quote_char_def)
  qed
qed

lemma json_string_tail_quoted:
  "json_string_tail (concat (map quote_char s) @ CHR 0x22 # rest) = Some (s, rest)"
  by (induction s) (simp_all add: json_string_tail_quote_char)

lemma parse_json_string_Quote: "parse_json_string (QuoteJSONString s @ rest) = Some (s, rest)"
  by (simp add: parse_json_string_def QuoteJSONString_def json_string_tail_quoted)

section \<open>Lemmas about the handler\<close>

text \<open>
  The \<open>try\<close>/\<open>catch\<close> statement sends exactly one request; the handler sends either
  nothing or that request, and a handler that has sent it is in the \<open>try\<close>/\<open>catch\<close>.
\<close>

lemma try_catch_sent: "snd (try_catch fetch r) = [telegramRequest r]"
  by (simp add: try_catch_def try_block_def split: sum.splits)

lemma try_catch_Inl:
  "fetch (telegramRequest r) = Inl message \<Longrightarrow>
   try_catch fetch r = (Inr (catch_block message), [telegramRequest r])"
  by (simp add: try_catch_def try_block_def)

lemma try_catch_Inr:
  "fetch (telegramRequest r) = Inr upstream \<Longrightarrow>
   try_catch fetch r =
     (Inr \<lparr>status = status upstream, statusText = statusText upstream,
           resp_headers = foldl (\<lambda>responseHeaders (key, val). headers_set responseHeaders key val)
                                (resp_headers upstream) corsHeaders,
           resp_body = resp_body upstream\<rparr>,
      [telegramRequest r])"
  by (simp add: try_catch_def try_block_def)

lemma handleRequest_sent:
  "snd (handleRequest fetch e r) = [] \<or> snd (handleRequest fetch e r) = [telegramRequest r]"
  by (simp add: handleRequest_def try_catch_sent)

lemma handleRequest_dispatched:
  "snd (handleRequest fetch e r) \<noteq> [] \<Longrightarrow> handleRequest fetch e r = try_catch fetch r"
  by (simp add: handleRequest_def split: if_splits)

text \<open>The four fixed bodies, as \<open>JSON.stringify\<close> writes them.\<close>

lemma catch_block_body:
  \<open>resp_body (catch_block message) =
     Some (''{"error":"Failed to proxy request to Telegram","message":'' @ QuoteJSONString message @ ''}'')\<close>
  by (simp add: catch_block_def JSON_stringify_def QuoteJSONString_def quote_char_def)

lemma forbidden_body:
  \<open>JSON_stringify [(''error'', ''Token not in allowlist'')] = ''{"error":"Token not in allowlist"}''\<close>
  by (simp add: JSON_stringify_def QuoteJSONString_def quote_char_def)

lemma health_body:
  \<open>JSON_stringify [(''status'', ''ok''), (''service'', ''telegram-api-proxy''),
                    (''usage'', ''Replace api.telegram.org with this worker URL'')] =
   ''{"status":"ok","service":"telegram-api-proxy","usage":"Replace api.telegram.org with this worker URL"}''\<close>
  by (simp add: JSON_stringify_def QuoteJSONString_def quote_char_def)

lemma invalid_path_body:
  \<open>JSON_stringify [(''error'', ''Invalid path. Expected /bot<token>/<method>''),
                    (''example'', ''/botYOUR_TOKEN/sendMessage'')] =
   ''{"error":"Invalid path. Expected /bot<token>/<method>","example":"/botYOUR_TOKEN/sendMessage"}''\<close>
  by (simp add: JSON_stringify_def QuoteJSONString_def quote_char_def)

text \<open>The allowlist block on a path with a token segment.\<close>

lemma bot_path_facts:
  assumes "p = ''/bot'' @ t"
  shows "p \<noteq> ''/''" "p \<noteq> ''/health''" "startsWith p ''/bot''"
  using assms by (simp_all add: startsWith_def)

lemma token_not_allowed_iff:
  assumes "p = ''/bot'' @ token @ rest" "token \<noteq> []" "CHR ''/'' \<notin> set token"
    "rest = [] \<or> hd rest = CHR ''/''"
  shows "token_not_allowed e p =
          (\<exists>cfg. ALLOWED_TOKENS e = Some cfg \<and> cfg \<noteq> [] \<and>
                 token \<notin> set (map trim (split CHR '','' cfg)))"
  using match_bot_token_segment [OF assms(1,3,4)] assms(2)
  by (auto simp: token_not_allowed_def allowedTokens_def array_includes_def split: option.splits)

text \<open>Every response carries the four CORS headers.\<close>

lemma cors_on_every_response:
  "\<exists>resp. fst (handleRequest fetch e r) = Inr resp \<and>
     header_values (resp_headers resp) ''Access-Control-Allow-Origin'' = [''*''] \<and>
     header_values (resp_headers resp) ''Access-Control-Allow-Methods'' = [''GET, POST, PUT, DELETE, OPTIONS''] \<and>
     header_values (resp_headers resp) ''Access-Control-Allow-Headers'' = [''Content-Type, Authorization''] \<and>
     header_values (resp_headers resp) ''Access-Control-Max-Age'' = [''86400'']"
proof (cases "snd (handleRequest fetch e r) = []")
  case True
  then show ?thesis
    by (auto simp: handleRequest_def try_catch_sent direct_cors_values split: if_splits)
next
  case False
  then have tc: "handleRequest fetch e r = try_catch fetch r"
    by (rule handleRequest_dispatched)
  show ?thesis
  proof (cases "fetch (telegramRequest r)")
    case (Inl message)
    show ?thesis
      by (simp add: tc try_catch_Inl [of fetch r, OF Inl] catch_block_def direct_cors_values)
  next
    case (Inr upstream)
    show ?thesis
      by (simp add: tc try_catch_Inr [of fetch r, OF Inr] relay_cors_values)
  qed
qed

section \<open>Properties\<close>

subsection \<open>The three outcomes that never reach the upstream\<close>

text \<open>
  C8. A request with method OPTIONS, whatever its path and whatever the configuration,
  gets a response with no body whose headers are the four CORS headers and nothing else,
  and no request is sent to the upstream.
\<close>

theorem preflight_response:
  "req_method r = ''OPTIONS'' \<Longrightarrow>
   handleRequest fetch e r =
     (Inr \<lparr>status = 200, statusText = [],
           resp_headers = [(''Access-Control-Allow-Origin'', ''*''),
                           (''Access-Control-Allow-Methods'', ''GET, POST, PUT, DELETE, OPTIONS''),
                           (''Access-Control-Allow-Headers'', ''Content-Type, Authorization''),
                           (''Access-Control-Max-Age'', ''86400'')],
           resp_body = None\<rparr>, [])"
  by (simp add: handleRequest_def corsHeaders_def)

theorem preflight_response_witness:
  "req_method (sample_request ''OPTIONS'' ''/not-a-bot-path'') = ''OPTIONS'' \<and>
   resp_body (projr (fst (handleRequest fetch_ok allow_T1_T2 (sample_request ''OPTIONS'' ''/not-a-bot-path'')))) = None \<and>
   snd (handleRequest fetch_ok allow_T1_T2 (sample_request ''OPTIONS'' ''/not-a-bot-path'')) = []"
proof -
  have h: "req_method (sample_request ''OPTIONS'' ''/not-a-bot-path'') = ''OPTIONS''"
    by (simp add: sample_request_def)
  from preflight_response [OF h, of fetch_ok allow_T1_T2] show ?thesis
    using h by simp
qed

text \<open>
  C9. A request with another method whose path is \<open>/\<close> or \<open>/health\<close> gets status 200
  and the fixed health document as body, with the CORS headers, and no request is sent to
  the upstream.
\<close>

theorem health_response:
  \<open>req_method r \<noteq> ''OPTIONS'' \<Longrightarrow> pathname r = ''/'' \<or> pathname r = ''/health'' \<Longrightarrow>
   handleRequest fetch e r =
     (Inr \<lparr>status = 200, statusText = [],
           resp_headers = [(''Content-Type'', ''application/json''),
                           (''Access-Control-Allow-Origin'', ''*''),
                           (''Access-Control-Allow-Methods'', ''GET, POST, PUT, DELETE, OPTIONS''),
                           (''Access-Control-Allow-Headers'', ''Content-Type, Authorization''),
                           (''Access-Control-Max-Age'', ''86400'')],
           resp_body = Some ''{"status":"ok","service":"telegram-api-proxy","usage":"Replace api.telegram.org with this worker URL"}''\<rparr>,
      [])\<close>
  by (simp add: handleRequest_def corsHeaders_def JSON_stringify_def QuoteJSONString_def quote_char_def)

theorem health_response_witness:
  "req_method (sample_request ''GET'' ''/health'') \<noteq> ''OPTIONS'' \<and>
   (pathname (sample_request ''GET'' ''/health'') = ''/'' \<or>
    pathname (sample_request ''GET'' ''/health'') = ''/health'') \<and>
   status (projr (fst (handleRequest fetch_down allow_T1_T2 (sample_request ''GET'' ''/health'')))) = 200 \<and>
   snd (handleRequest fetch_down allow_T1_T2 (sample_request ''GET'' ''/health'')) = []"
proof -
  have m: "req_method (sample_request ''GET'' ''/health'') \<noteq> ''OPTIONS''"
    by (simp add: sample_request_def)
  have p: "pathname (sample_request ''GET'' ''/health'') = ''/'' \<or>
           pathname (sample_request ''GET'' ''/health'') = ''/health''"
    by (simp add: sample_request_def)
  from health_response [OF m p, of fetch_down allow_T1_T2] show ?thesis
    using m p by simp
qed

text \<open>
  C7. A request with a method other than OPTIONS whose path is neither \<open>/\<close> nor
  \<open>/health\<close> and does not start with \<open>/bot\<close> gets status 400 and the fixed
  invalid-path document as body, and no request is sent to the upstream.
\<close>

theorem invalid_path_response:
  \<open>req_method r \<noteq> ''OPTIONS'' \<Longrightarrow> pathname r \<noteq> ''/'' \<Longrightarrow> pathname r \<noteq> ''/health'' \<Longrightarrow>
   \<not> startsWith (pathname r) ''/bot'' \<Longrightarrow>
   handleRequest fetch e r =
     (Inr \<lparr>status = 400, statusText = [],
           resp_headers = [(''Content-Type'', ''application/json''),
                           (''Access-Control-Allow-Origin'', ''*''),
                           (''Access-Control-Allow-Methods'', ''GET, POST, PUT, DELETE, OPTIONS''),
                           (''Access-Control-Allow-Headers'', ''Content-Type, Authorization''),
                           (''Access-Control-Max-Age'', ''86400'')],
           resp_body = Some ''{"error":"Invalid path. Expected /bot<token>/<method>","example":"/botYOUR_TOKEN/sendMessage"}''\<rparr>,
      [])\<close>
  by (simp add: handleRequest_def corsHeaders_def JSON_stringify_def QuoteJSONString_def quote_char_def)

theorem invalid_path_response_witness:
  "req_method (sample_request ''POST'' ''/robots.txt'') \<noteq> ''OPTIONS'' \<and>
   pathname (sample_request ''POST'' ''/robots.txt'') \<noteq> ''/'' \<and>
   pathname (sample_request ''POST'' ''/robots.txt'') \<noteq> ''/health'' \<and>
   \<not> startsWith (pathname (sample_request ''POST'' ''/robots.txt'')) ''/bot'' \<and>
   status (projr (fst (handleRequest fetch_ok allow_T1_T2 (sample_request ''POST'' ''/robots.txt'')))) = 400 \<and>
   snd (handleRequest fetch_ok allow_T1_T2 (sample_request ''POST'' ''/robots.txt'')) = []"
proof -
  have m: "req_method (sample_request ''POST'' ''/robots.txt'') \<noteq> ''OPTIONS''"
    and p1: "pathname (sample_request ''POST'' ''/robots.txt'') \<noteq> ''/''"
    and p2: "pathname (sample_request ''POST'' ''/robots.txt'') \<noteq> ''/health''"
    and p3: "\<not> startsWith (pathname (sample_request ''POST'' ''/robots.txt'')) ''/bot''"
    by (simp_all add: sample_request_def startsWith_def)
  from invalid_path_response [OF m p1 p2 p3, of fetch_ok allow_T1_T2] show ?thesis
    using m p1 p2 p3 by simp
qed

subsection \<open>The order of the checks\<close>

text \<open>
  C1. The checks run in a fixed order and the first one that applies decides the outcome:
  a request with method OPTIONS gets the preflight response whatever its path; otherwise a
  request to \<open>/\<close> or \<open>/health\<close> gets the health response; otherwise a request whose path
  does not start with \<open>/bot\<close> gets 400, whatever the allowlist configuration is;
  otherwise a request that the allowlist block rejects gets 403; every other request is
  sent to the upstream. The first four outcomes send nothing to the upstream.
\<close>

theorem check_order:
  \<open>(req_method r = ''OPTIONS'' \<longrightarrow>
      (\<exists>resp. handleRequest fetch e r = (Inr resp, []) \<and> status resp = 200 \<and> resp_body resp = None)) \<and>
   (req_method r \<noteq> ''OPTIONS'' \<and> (pathname r = ''/'' \<or> pathname r = ''/health'') \<longrightarrow>
      (\<exists>resp. handleRequest fetch e r = (Inr resp, []) \<and> status resp = 200 \<and>
         resp_body resp = Some ''{"status":"ok","service":"telegram-api-proxy","usage":"Replace api.telegram.org with this worker URL"}'')) \<and>
   (req_method r \<noteq> ''OPTIONS'' \<and> pathname r \<noteq> ''/'' \<and> pathname r \<noteq> ''/health'' \<and>
    \<not> startsWith (pathname r) ''/bot'' \<longrightarrow>
      (\<exists>resp. handleRequest fetch e r = (Inr resp, []) \<and> status resp = 400 \<and>
         resp_body resp = Some ''{"error":"Invalid path. Expected /bot<token>/<method>","example":"/botYOUR_TOKEN/sendMessage"}'')) \<and>
   (req_method r \<noteq> ''OPTIONS'' \<and> pathname r \<noteq> ''/'' \<and> pathname r \<noteq> ''/health'' \<and>
    startsWith (pathname r) ''/bot'' \<and> token_not_allowed e (pathname r) \<longrightarrow>
      (\<exists>resp. handleRequest fetch e r = (Inr resp, []) \<and> status resp = 403 \<and>
         resp_body resp = Some ''{"error":"Token not in allowlist"}'')) \<and>
   (req_method r \<noteq> ''OPTIONS'' \<and> pathname r \<noteq> ''/'' \<and> pathname r \<noteq> ''/health'' \<and>
    startsWith (pathname r) ''/bot'' \<and> \<not> token_not_allowed e (pathname r) \<longrightarrow>
      handleRequest fetch e r = try_catch fetch r \<and>
      snd (handleRequest fetch e r) = [telegramRequest r])\<close>
  by (simp add: handleRequest_def try_catch_sent health_body invalid_path_body forbidden_body)

theorem check_order_witness:
  \<open>req_method (sample_request ''OPTIONS'' ''/health'') = ''OPTIONS'' \<and>
   handleRequest fetch_ok allow_T1_T2 (sample_request ''OPTIONS'' ''/health'') =
     (Inr (projr (fst (handleRequest fetch_ok allow_T1_T2 (sample_request ''OPTIONS'' ''/health'')))), []) \<and>
   resp_body (projr (fst (handleRequest fetch_ok allow_T1_T2 (sample_request ''OPTIONS'' ''/health'')))) = None \<and>
   req_method (sample_request ''GET'' ''/'') \<noteq> ''OPTIONS'' \<and>
   pathname (sample_request ''GET'' ''/'') = ''/'' \<and>
   resp_body (projr (fst (handleRequest fetch_ok allow_T1_T2 (sample_request ''GET'' ''/'')))) =
     Some ''{"status":"ok","service":"telegram-api-proxy","usage":"Replace api.telegram.org with this worker URL"}'' \<and>
   req_method (sample_request ''GET'' ''/file/botT3/a.jpg'') \<noteq> ''OPTIONS'' \<and>
   pathname (sample_request ''GET'' ''/file/botT3/a.jpg'') \<noteq> ''/'' \<and>
   pathname (sample_request ''GET'' ''/file/botT3/a.jpg'') \<noteq> ''/health'' \<and>
   \<not> startsWith (pathname (sample_request ''GET'' ''/file/botT3/a.jpg'')) ''/bot'' \<and>
   status (projr (fst (handleRequest fetch_ok allow_T1_T2 (sample_request ''GET'' ''/file/botT3/a.jpg'')))) = 400 \<and>
   startsWith (pathname (sample_request ''GET'' ''/botT3/getMe'')) ''/bot'' \<and>
   token_not_allowed allow_T1_T2 (pathname (sample_request ''GET'' ''/botT3/getMe'')) \<and>
   status (projr (fst (handleRequest fetch_ok allow_T1_T2 (sample_request ''GET'' ''/botT3/getMe'')))) = 403 \<and>
   snd (handleRequest fetch_ok allow_T1_T2 (sample_request ''GET'' ''/botT3/getMe'')) = [] \<and>
   startsWith (pathname (sample_request ''GET'' ''/botT1/getMe'')) ''/bot'' \<and>
   \<not> token_not_allowed allow_T1_T2 (pathname (sample_request ''GET'' ''/botT1/getMe'')) \<and>
   snd (handleRequest fetch_ok allow_T1_T2 (sample_request ''GET'' ''/botT1/getMe'')) =
     [telegramRequest (sample_request ''GET'' ''/botT1/getMe'')]\<close>
proof -
  let ?o = "sample_request ''OPTIONS'' ''/health''"
  let ?h = "sample_request ''GET'' ''/''"
  let ?i = "sample_request ''GET'' ''/file/botT3/a.jpg''"
  let ?f = "sample_request ''GET'' ''/botT3/getMe''"
  let ?d = "sample_request ''GET'' ''/botT1/getMe''"
  have o: "req_method ?o = ''OPTIONS''"
    by (simp add: sample_request_def)
  have h: "req_method ?h \<noteq> ''OPTIONS'' \<and> (pathname ?h = ''/'' \<or> pathname ?h = ''/health'')"
    by (simp add: sample_request_def)
  have hp: "pathname ?h = ''/''"
    by (simp add: sample_request_def)
  have i: "req_method ?i \<noteq> ''OPTIONS'' \<and> pathname ?i \<noteq> ''/'' \<and> pathname ?i \<noteq> ''/health'' \<and>
           \<not> startsWith (pathname ?i) ''/bot''"
    by (simp add: sample_request_def startsWith_def)
  have entries: "allowedTokens ''T1, T2'' = [''T1'', ''T2'']"
    by code_simp
  have f: "req_method ?f \<noteq> ''OPTIONS'' \<and> pathname ?f \<noteq> ''/'' \<and> pathname ?f \<noteq> ''/health'' \<and>
           startsWith (pathname ?f) ''/bot'' \<and> token_not_allowed allow_T1_T2 (pathname ?f)"
    by (simp add: sample_request_def startsWith_def token_not_allowed_def allow_T1_T2_def
          match_bot_token_def entries array_includes_def)
  have d: "req_method ?d \<noteq> ''OPTIONS'' \<and> pathname ?d \<noteq> ''/'' \<and> pathname ?d \<noteq> ''/health'' \<and>
           startsWith (pathname ?d) ''/bot'' \<and> \<not> token_not_allowed allow_T1_T2 (pathname ?d)"
    by (simp add: sample_request_def startsWith_def token_not_allowed_def allow_T1_T2_def
          match_bot_token_def entries array_includes_def)
  from check_order [of ?o fetch_ok allow_T1_T2] o
  obtain ro where ro: "handleRequest fetch_ok allow_T1_T2 ?o = (Inr ro, [])" "resp_body ro = None"
    by blast
  from check_order [of ?h fetch_ok allow_T1_T2] h
  obtain rh where rh: "handleRequest fetch_ok allow_T1_T2 ?h = (Inr rh, [])"
    \<open>resp_body rh = Some ''{"status":"ok","service":"telegram-api-proxy","usage":"Replace api.telegram.org with this worker URL"}''\<close>
    by blast
  from check_order [of ?i fetch_ok allow_T1_T2] i
  obtain ri where ri: "handleRequest fetch_ok allow_T1_T2 ?i = (Inr ri, [])" "status ri = 400"
    by blast
  from check_order [of ?f fetch_ok allow_T1_T2] f
  obtain rf where rf: "handleRequest fetch_ok allow_T1_T2 ?f = (Inr rf, [])" "status rf = 403"
    by blast
  from check_order [of ?d fetch_ok allow_T1_T2] d
  have rd: "snd (handleRequest fetch_ok allow_T1_T2 ?d) = [telegramRequest ?d]"
    by blast
  show ?thesis
    using o h hp i f d rd by (simp add: ro rh ri rf)
qed

subsection \<open>The allowlist\<close>

text \<open>
  C2, as amended. For a request with a method other than OPTIONS whose path is
  \<open>/bot\<close>, a non-empty token without \<open>/\<close>, and then nothing or a \<open>/\<close>: when the
  allowlist configuration is a non-empty string, the handler answers with the 403
  response (body \<open>{"error":"Token not in allowlist"}\<close>) and sends nothing upstream if and
  only if the token is not among the comma-separated entries of the configuration, each
  trimmed of white space; when the token is among them the request is sent upstream. When
  the configuration is absent or empty the request is always sent upstream.
\<close>

theorem allowlist_decides:
  assumes "req_method r \<noteq> ''OPTIONS''"
    and "pathname r = ''/bot'' @ token @ rest"
    and "token \<noteq> []" and "CHR ''/'' \<notin> set token" and "rest = [] \<or> hd rest = CHR ''/''"
  shows \<open>(ALLOWED_TOKENS e = Some cfg \<and> cfg \<noteq> [] \<longrightarrow>
            ((handleRequest fetch e r =
                (Inr \<lparr>status = 403, statusText = [],
                      resp_headers = [(''Content-Type'', ''application/json''),
                                      (''Access-Control-Allow-Origin'', ''*''),
                                      (''Access-Control-Allow-Methods'', ''GET, POST, PUT, DELETE, OPTIONS''),
                                      (''Access-Control-Allow-Headers'', ''Content-Type, Authorization''),
                                      (''Access-Control-Max-Age'', ''86400'')],
                      resp_body = Some ''{"error":"Token not in allowlist"}''\<rparr>, []))
             = (token \<notin> set (map trim (split CHR '','' cfg)))) \<and>
            (token \<in> set (map trim (split CHR '','' cfg)) \<longrightarrow>
               snd (handleRequest fetch e r) = [telegramRequest r])) \<and>
         (ALLOWED_TOKENS e = None \<or> ALLOWED_TOKENS e = Some [] \<longrightarrow>
            snd (handleRequest fetch e r) = [telegramRequest r])\<close>
proof -
  have p: "pathname r \<noteq> ''/''" "pathname r \<noteq> ''/health''" "startsWith (pathname r) ''/bot''"
    using bot_path_facts [OF assms(2)] by simp_all
  have tna: "token_not_allowed e (pathname r) =
          (\<exists>cfg. ALLOWED_TOKENS e = Some cfg \<and> cfg \<noteq> [] \<and>
                 token \<notin> set (map trim (split CHR '','' cfg)))"
    by (rule token_not_allowed_iff [OF assms(2-5)])
  have rejected: \<open>handleRequest fetch e r =
         (Inr \<lparr>status = 403, statusText = [],
               resp_headers = [(''Content-Type'', ''application/json''),
                               (''Access-Control-Allow-Origin'', ''*''),
                               (''Access-Control-Allow-Methods'', ''GET, POST, PUT, DELETE, OPTIONS''),
                               (''Access-Control-Allow-Headers'', ''Content-Type, Authorization''),
                               (''Access-Control-Max-Age'', ''86400'')],
               resp_body = Some ''{"error":"Token not in allowlist"}''\<rparr>, [])\<close>
    if "token_not_allowed e (pathname r)"
    using that assms(1) p by (simp add: handleRequest_def forbidden_body corsHeaders_def)
  have passed_sent: "snd (handleRequest fetch e r) = [telegramRequest r]"
    if "\<not> token_not_allowed e (pathname r)"
    using that assms(1) p by (simp add: handleRequest_def try_catch_sent)
  show ?thesis
  proof (intro conjI impI)
    assume c: "ALLOWED_TOKENS e = Some cfg \<and> cfg \<noteq> []"
    then have t: "token_not_allowed e (pathname r) = (token \<notin> set (map trim (split CHR '','' cfg)))"
      using tna by simp
    show \<open>(handleRequest fetch e r =
                (Inr \<lparr>status = 403, statusText = [],
                      resp_headers = [(''Content-Type'', ''application/json''),
                                      (''Access-Control-Allow-Origin'', ''*''),
                                      (''Access-Control-Allow-Methods'', ''GET, POST, PUT, DELETE, OPTIONS''),
                                      (''Access-Control-Allow-Headers'', ''Content-Type, Authorization''),
                                      (''Access-Control-Max-Age'', ''86400'')],
                      resp_body = Some ''{"error":"Token not in allowlist"}''\<rparr>, []))
             = (token \<notin> set (map trim (split CHR '','' cfg)))\<close>
    proof (cases "token_not_allowed e (pathname r)")
      case True
      with rejected t show ?thesis by simp
    next
      case False
      from passed_sent [OF False] have "snd (handleRequest fetch e r) \<noteq> []" by simp
      then have "handleRequest fetch e r \<noteq> (Inr x, [])" for x by auto
      with False t show ?thesis by simp
    qed
    show "snd (handleRequest fetch e r) = [telegramRequest r]"
      if "token \<in> set (map trim (split CHR '','' cfg))"
      using that t passed_sent by blast
  next
    assume "ALLOWED_TOKENS e = None \<or> ALLOWED_TOKENS e = Some []"
    then have "\<not> token_not_allowed e (pathname r)"
      by (auto simp: token_not_allowed_def)
    then show "snd (handleRequest fetch e r) = [telegramRequest r]"
      by (rule passed_sent)
  qed
qed

theorem allowlist_decides_witness:
  \<open>req_method (sample_request ''GET'' ''/botT3/sendMessage'') \<noteq> ''OPTIONS'' \<and>
   pathname (sample_request ''GET'' ''/botT3/sendMessage'') = ''/bot'' @ ''T3'' @ ''/sendMessage'' \<and>
   ''T3'' \<noteq> [] \<and> CHR ''/'' \<notin> set ''T3'' \<and> hd ''/sendMessage'' = CHR ''/'' \<and>
   ALLOWED_TOKENS allow_T1_T2 = Some ''T1, T2'' \<and> ''T1, T2'' \<noteq> [] \<and>
   ''T3'' \<notin> set (map trim (split CHR '','' ''T1, T2'')) \<and>
   fst (handleRequest fetch_ok allow_T1_T2 (sample_request ''GET'' ''/botT3/sendMessage'')) =
     Inr \<lparr>status = 403, statusText = [],
          resp_headers = [(''Content-Type'', ''application/json''),
                          (''Access-Control-Allow-Origin'', ''*''),
                          (''Access-Control-Allow-Methods'', ''GET, POST, PUT, DELETE, OPTIONS''),
                          (''Access-Control-Allow-Headers'', ''Content-Type, Authorization''),
                          (''Access-Control-Max-Age'', ''86400'')],
          resp_body = Some ''{"error":"Token not in allowlist"}''\<rparr> \<and>
   snd (handleRequest fetch_ok allow_T1_T2 (sample_request ''GET'' ''/botT3/sendMessage'')) = [] \<and>
   pathname (sample_request ''GET'' ''/botT2/sendMessage'') = ''/bot'' @ ''T2'' @ ''/sendMessage'' \<and>
   ''T2'' \<in> set (map trim (split CHR '','' ''T1, T2'')) \<and>
   snd (handleRequest fetch_ok allow_T1_T2 (sample_request ''GET'' ''/botT2/sendMessage'')) =
     [telegramRequest (sample_request ''GET'' ''/botT2/sendMessage'')]\<close>
proof -
  let ?r3 = "sample_request ''GET'' ''/botT3/sendMessage''"
  let ?r2 = "sample_request ''GET'' ''/botT2/sendMessage''"
  have m3: "req_method ?r3 \<noteq> ''OPTIONS''" and m2: "req_method ?r2 \<noteq> ''OPTIONS''"
    by (simp_all add: sample_request_def)
  have p3: "pathname ?r3 = ''/bot'' @ ''T3'' @ ''/sendMessage''"
    and p2: "pathname ?r2 = ''/bot'' @ ''T2'' @ ''/sendMessage''"
    by (simp_all add: sample_request_def)
  have t3: "''T3'' \<noteq> []" "CHR ''/'' \<notin> set ''T3''" and t2: "''T2'' \<noteq> []" "CHR ''/'' \<notin> set ''T2''"
    by simp_all
  have rest: "''/sendMessage'' = [] \<or> hd ''/sendMessage'' = CHR ''/''"
    by simp
  have cfg: "ALLOWED_TOKENS allow_T1_T2 = Some ''T1, T2'' \<and> ''T1, T2'' \<noteq> []"
    by (simp add: allow_T1_T2_def)
  have entries: "map trim (split CHR '','' ''T1, T2'') = [''T1'', ''T2'']"
    by code_simp
  have out3: "''T3'' \<notin> set (map trim (split CHR '','' ''T1, T2''))"
    and in2: "''T2'' \<in> set (map trim (split CHR '','' ''T1, T2''))"
    unfolding entries by simp_all
  from allowlist_decides [OF m3 p3 t3 rest, of allow_T1_T2 "''T1, T2''" fetch_ok] cfg out3
  have r3: \<open>handleRequest fetch_ok allow_T1_T2 ?r3 =
     (Inr \<lparr>status = 403, statusText = [],
          resp_headers = [(''Content-Type'', ''application/json''),
                          (''Access-Control-Allow-Origin'', ''*''),
                          (''Access-Control-Allow-Methods'', ''GET, POST, PUT, DELETE, OPTIONS''),
                          (''Access-Control-Allow-Headers'', ''Content-Type, Authorization''),
                          (''Access-Control-Max-Age'', ''86400'')],
          resp_body = Some ''{"error":"Token not in allowlist"}''\<rparr>, [])\<close>
    by blast
  from allowlist_decides [OF m2 p2 t2 rest, of allow_T1_T2 "''T1, T2''" fetch_ok] cfg in2
  have r2: "snd (handleRequest fetch_ok allow_T1_T2 ?r2) = [telegramRequest ?r2]"
    by blast
  show ?thesis
    using m3 p3 p2 cfg out3 in2 r2 by (simp add: r3)
qed

text \<open>
  C2 as stated, for every request, fails on a preflight request: with the allowlist
  \<open>T1, T2\<close>, the request \<open>OPTIONS /botT3/sendMessage\<close> carries a token that is not on
  the list and is answered with the preflight response, status 200, not with 403. And a
  403 with this body can be returned without an allowlist, when it is the upstream's own
  answer being relayed: the request has then been sent upstream.
\<close>

theorem allowlist_options_counterexample:
  \<open>pathname (sample_request ''OPTIONS'' ''/botT3/sendMessage'') = ''/bot'' @ ''T3'' @ ''/sendMessage'' \<and>
   ALLOWED_TOKENS allow_T1_T2 = Some ''T1, T2'' \<and>
   ''T3'' \<notin> set (map trim (split CHR '','' ''T1, T2'')) \<and>
   handleRequest fetch_ok allow_T1_T2 (sample_request ''OPTIONS'' ''/botT3/sendMessage'') =
     (Inr \<lparr>status = 200, statusText = [],
           resp_headers = [(''Access-Control-Allow-Origin'', ''*''),
                           (''Access-Control-Allow-Methods'', ''GET, POST, PUT, DELETE, OPTIONS''),
                           (''Access-Control-Allow-Headers'', ''Content-Type, Authorization''),
                           (''Access-Control-Max-Age'', ''86400'')],
           resp_body = None\<rparr>, []) \<and>
   status (projr (fst (handleRequest fetch_ok allow_T1_T2 (sample_request ''OPTIONS'' ''/botT3/sendMessage'')))) \<noteq> 403 \<and>
   ALLOWED_TOKENS no_allowlist = None \<and>
   status (projr (fst (handleRequest fetch_forbidden no_allowlist (sample_request ''GET'' ''/botT1/getMe'')))) = 403 \<and>
   resp_body (projr (fst (handleRequest fetch_forbidden no_allowlist (sample_request ''GET'' ''/botT1/getMe'')))) =
     Some ''{"error":"Token not in allowlist"}'' \<and>
   snd (handleRequest fetch_forbidden no_allowlist (sample_request ''GET'' ''/botT1/getMe'')) =
     [telegramRequest (sample_request ''GET'' ''/botT1/getMe'')]\<close>
proof -
  have entries: "map trim (split CHR '','' ''T1, T2'') = [''T1'', ''T2'']"
    by code_simp
  have out3: "''T3'' \<notin> set (map trim (split CHR '','' ''T1, T2''))"
    unfolding entries by simp
  have preflight:
    "handleRequest fetch_ok allow_T1_T2 (sample_request ''OPTIONS'' ''/botT3/sendMessage'') =
     (Inr \<lparr>status = 200, statusText = [],
           resp_headers = [(''Access-Control-Allow-Origin'', ''*''),
                           (''Access-Control-Allow-Methods'', ''GET, POST, PUT, DELETE, OPTIONS''),
                           (''Access-Control-Allow-Headers'', ''Content-Type, Authorization''),
                           (''Access-Control-Max-Age'', ''86400'')],
           resp_body = None\<rparr>, [])"
    by (simp add: handleRequest_def sample_request_def corsHeaders_def)
  have p: "pathname (sample_request ''OPTIONS'' ''/botT3/sendMessage'') = ''/bot'' @ ''T3'' @ ''/sendMessage''"
    by (simp add: sample_request_def)
  have relayed: "handleRequest fetch_forbidden no_allowlist (sample_request ''GET'' ''/botT1/getMe'') =
                 try_catch fetch_forbidden (sample_request ''GET'' ''/botT1/getMe'')"
    by (simp add: handleRequest_def sample_request_def startsWith_def token_not_allowed_def
          no_allowlist_def)
  have up: "fetch_forbidden (telegramRequest (sample_request ''GET'' ''/botT1/getMe'')) = Inr upstream_forbidden"
    by (simp add: fetch_forbidden_def)
  have relay: \<open>status (projr (fst (try_catch fetch_forbidden (sample_request ''GET'' ''/botT1/getMe'')))) = 403 \<and>
     resp_body (projr (fst (try_catch fetch_forbidden (sample_request ''GET'' ''/botT1/getMe'')))) =
       Some ''{"error":"Token not in allowlist"}'' \<and>
     snd (try_catch fetch_forbidden (sample_request ''GET'' ''/botT1/getMe'')) =
       [telegramRequest (sample_request ''GET'' ''/botT1/getMe'')]\<close>
    by (simp add: try_catch_Inr [of fetch_forbidden, OF up] upstream_forbidden_def)
  have cfg: "ALLOWED_TOKENS allow_T1_T2 = Some ''T1, T2''" "ALLOWED_TOKENS no_allowlist = None"
    by (simp_all add: allow_T1_T2_def no_allowlist_def)
  show ?thesis
    using out3 p relay cfg by (simp add: preflight relayed)
qed

text \<open>
  C3. A request with a method other than OPTIONS whose path is exactly \<open>/bot\<close> or
  starts with \<open>/bot/\<close> has an empty token segment: the pattern does not match, so
  whatever the allowlist configuration is the request is sent upstream, to the upstream
  origin followed by the path and the query, and the response is the relayed upstream
  response, or the 502 response when the call fails.
\<close>

theorem empty_token_dispatched:
  assumes "req_method r \<noteq> ''OPTIONS''"
    and "pathname r = ''/bot'' \<or> (\<exists>rest. pathname r = ''/bot/'' @ rest)"
  shows "match_bot_token (pathname r) = None \<and>
         snd (handleRequest fetch e r) = [telegramRequest r] \<and>
         tg_url (telegramRequest r) = ''https://api.telegram.org'' @ pathname r @ search r \<and>
         (\<forall>message. fetch (telegramRequest r) = Inl message \<longrightarrow>
            (\<exists>resp. fst (handleRequest fetch e r) = Inr resp \<and> status resp = 502)) \<and>
         (\<forall>upstream. fetch (telegramRequest r) = Inr upstream \<longrightarrow>
            (\<exists>resp. fst (handleRequest fetch e r) = Inr resp \<and> status resp = status upstream \<and>
               resp_body resp = resp_body upstream))"
proof -
  from assms(2) obtain rest where rest: "pathname r = ''/bot'' @ [] @ rest" "rest = [] \<or> hd rest = CHR ''/''"
    by auto
  have nomatch: "match_bot_token (pathname r) = None"
    using match_bot_token_segment [OF rest(1) _ rest(2)] by simp
  then have ok: "\<not> token_not_allowed e (pathname r)"
    by (simp add: token_not_allowed_def split: option.splits)
  have p: "pathname r \<noteq> ''/''" "pathname r \<noteq> ''/health''" "startsWith (pathname r) ''/bot''"
    using bot_path_facts [OF rest(1)] by simp_all
  have tc: "handleRequest fetch e r = try_catch fetch r"
    using assms(1) p ok by (simp add: handleRequest_def)
  have url: "tg_url (telegramRequest r) = ''https://api.telegram.org'' @ pathname r @ search r"
    by (simp add: telegramRequest_def)
  have down: "\<exists>resp. fst (handleRequest fetch e r) = Inr resp \<and> status resp = 502"
    if "fetch (telegramRequest r) = Inl message" for message
    by (simp add: tc try_catch_Inl [of fetch r, OF that] catch_block_def)
  have up: "\<exists>resp. fst (handleRequest fetch e r) = Inr resp \<and> status resp = status upstream \<and>
               resp_body resp = resp_body upstream"
    if "fetch (telegramRequest r) = Inr upstream" for upstream
    by (simp add: tc try_catch_Inr [of fetch r, OF that])
  show ?thesis
    using nomatch url down up by (simp add: tc try_catch_sent)
qed

theorem empty_token_dispatched_witness:
  "req_method (sample_request ''POST'' ''/bot/sendMessage'') \<noteq> ''OPTIONS'' \<and>
   pathname (sample_request ''POST'' ''/bot/sendMessage'') = ''/bot/'' @ ''sendMessage'' \<and>
   ALLOWED_TOKENS allow_T1_T2 = Some ''T1, T2'' \<and>
   snd (handleRequest fetch_ok allow_T1_T2 (sample_request ''POST'' ''/bot/sendMessage'')) =
     [telegramRequest (sample_request ''POST'' ''/bot/sendMessage'')] \<and>
   tg_url (telegramRequest (sample_request ''POST'' ''/bot/sendMessage'')) =
     ''https://api.telegram.org/bot/sendMessage?chat_id=1'' \<and>
   status (projr (fst (handleRequest fetch_down allow_T1_T2 (sample_request ''POST'' ''/bot/sendMessage'')))) = 502"
proof -
  let ?r = "sample_request ''POST'' ''/bot/sendMessage''"
  have m: "req_method ?r \<noteq> ''OPTIONS''"
    by (simp add: sample_request_def)
  have p: "pathname ?r = ''/bot/'' @ ''sendMessage''"
    by (simp add: sample_request_def)
  then have p': "pathname ?r = ''/bot'' \<or> (\<exists>rest. pathname ?r = ''/bot/'' @ rest)"
    by blast
  have s: "search ?r = ''?chat_id=1''"
    by (simp add: sample_request_def)
  have down: "fetch_down (telegramRequest ?r) = Inl ''connection refused''"
    by (simp add: fetch_down_def)
  from empty_token_dispatched [OF m p', of fetch_ok allow_T1_T2]
  have sent: "snd (handleRequest fetch_ok allow_T1_T2 ?r) = [telegramRequest ?r]"
    and url: "tg_url (telegramRequest ?r) = ''https://api.telegram.org'' @ pathname ?r @ search ?r"
    by simp_all
  from empty_token_dispatched [OF m p', of fetch_down allow_T1_T2] down
  have st: "status (projr (fst (handleRequest fetch_down allow_T1_T2 ?r))) = 502"
    by auto
  show ?thesis
    using m p sent st url by (simp add: s allow_T1_T2_def)
qed

subsection \<open>The request sent upstream\<close>

text \<open>
  C4. The headers of a request sent upstream all have a lower-cased name among
  content-type, accept, accept-language and content-length, and a name that an inbound
  header has; when no such name occurs twice among the inbound headers (as in the entries
  of a \<open>Headers\<close> object), they are exactly the inbound headers with such a name, values
  and order unchanged. Every other inbound header is absent.
\<close>

theorem forwarded_headers:
  assumes "q \<in> set (snd (handleRequest fetch e r))"
  shows "(\<forall>(k, v) \<in> set (tg_headers q).
            toLowerCase k \<in> {''content-type'', ''accept'', ''accept-language'', ''content-length''} \<and>
            (\<exists>v'. (k, v') \<in> set (headers r))) \<and>
         (distinct (map (\<lambda>h. byte_lowercase (fst h))
                        (filter (\<lambda>(k, v). toLowerCase k \<in> {''content-type'', ''accept'', ''accept-language'', ''content-length''})
                                (headers r))) \<longrightarrow>
          tg_headers q =
            filter (\<lambda>(k, v). toLowerCase k \<in> {''content-type'', ''accept'', ''accept-language'', ''content-length''})
                   (headers r))"
proof -
  from assms handleRequest_sent [of fetch e r] have q: "q = telegramRequest r"
    by auto
  have hs: "tg_headers q = filterHeaders (headers r)"
    by (simp add: q telegramRequest_def)
  have names: "\<forall>(k, v) \<in> set (filterHeaders (headers r)).
            toLowerCase k \<in> {''content-type'', ''accept'', ''accept-language'', ''content-length''} \<and>
            (\<exists>v'. (k, v') \<in> set (headers r))"
    using filterHeaders_names_acc [of _ _ "[]" "headers r"]
    unfolding filterHeaders_def array_includes_allowedHeaders by fastforce
  have eq: "filterHeaders (headers r) =
            filter (\<lambda>(k, v). toLowerCase k \<in> {''content-type'', ''accept'', ''accept-language'', ''content-length''})
                   (headers r)"
    if "distinct (map (\<lambda>h. byte_lowercase (fst h))
                        (filter (\<lambda>(k, v). toLowerCase k \<in> {''content-type'', ''accept'', ''accept-language'', ''content-length''})
                                (headers r)))"
    using filter_step_acc [of "[]" "headers r"] that
    unfolding filterHeaders_def array_includes_allowedHeaders by simp
  show ?thesis unfolding hs using names eq by blast
qed

theorem forwarded_headers_witness:
  "telegramRequest (sample_request ''POST'' ''/botT1/sendMessage'')
     \<in> set (snd (handleRequest fetch_ok allow_T1_T2 (sample_request ''POST'' ''/botT1/sendMessage''))) \<and>
   distinct (map (\<lambda>h. byte_lowercase (fst h))
                 (filter (\<lambda>(k, v). toLowerCase k \<in> {''content-type'', ''accept'', ''accept-language'', ''content-length''})
                         (headers (sample_request ''POST'' ''/botT1/sendMessage'')))) \<and>
   tg_headers (telegramRequest (sample_request ''POST'' ''/botT1/sendMessage'')) =
     [(''accept'', ''*/*''), (''content-type'', ''application/json'')]"
proof -
  let ?r = "sample_request ''POST'' ''/botT1/sendMessage''"
  have sent: "snd (handleRequest fetch_ok allow_T1_T2 ?r) = [telegramRequest ?r]"
    by code_simp
  then have h: "telegramRequest ?r \<in> set (snd (handleRequest fetch_ok allow_T1_T2 ?r))"
    by simp
  have f: "filter (\<lambda>(k, v). toLowerCase k \<in> {''content-type'', ''accept'', ''accept-language'', ''content-length''})
                  (headers ?r) = [(''accept'', ''*/*''), (''content-type'', ''application/json'')]"
    by code_simp
  have d: "distinct (map (\<lambda>h. byte_lowercase (fst h)) [(''accept'', ''*/*''), (''content-type'', ''application/json'')])"
    by code_simp
  from forwarded_headers [OF h] d f show ?thesis using h by simp
qed

subsection \<open>The responses after the upstream call\<close>

text \<open>
  C5. When the upstream call returns a response, the final response has its status, its
  status text and its body; its headers other than the four CORS headers are those of the
  upstream response, unchanged. On every response of the handler, whichever the outcome,
  each of the four CORS headers is present once, with the value
  \<open>*\<close>, \<open>GET, POST, PUT, DELETE, OPTIONS\<close>, \<open>Content-Type, Authorization\<close> and
  \<open>86400\<close>, whatever the upstream sent under these names.
\<close>

theorem relay_response:
  "(q \<in> set (snd (handleRequest fetch e r)) \<and> fetch q = Inr upstream \<longrightarrow>
      (\<exists>resp. fst (handleRequest fetch e r) = Inr resp \<and>
         status resp = status upstream \<and>
         statusText resp = statusText upstream \<and>
         resp_body resp = resp_body upstream \<and>
         filter (\<lambda>(n, w). \<not> same_name n ''Access-Control-Allow-Origin'' \<and>
                            \<not> same_name n ''Access-Control-Allow-Methods'' \<and>
                            \<not> same_name n ''Access-Control-Allow-Headers'' \<and>
                            \<not> same_name n ''Access-Control-Max-Age'') (resp_headers resp)
         = filter (\<lambda>(n, w). \<not> same_name n ''Access-Control-Allow-Origin'' \<and>
                            \<not> same_name n ''Access-Control-Allow-Methods'' \<and>
                            \<not> same_name n ''Access-Control-Allow-Headers'' \<and>
                            \<not> same_name n ''Access-Control-Max-Age'') (resp_headers upstream))) \<and>
   (\<exists>resp. fst (handleRequest fetch e r) = Inr resp \<and>
      header_values (resp_headers resp) ''Access-Control-Allow-Origin'' = [''*''] \<and>
      header_values (resp_headers resp) ''Access-Control-Allow-Methods'' = [''GET, POST, PUT, DELETE, OPTIONS''] \<and>
      header_values (resp_headers resp) ''Access-Control-Allow-Headers'' = [''Content-Type, Authorization''] \<and>
      header_values (resp_headers resp) ''Access-Control-Max-Age'' = [''86400''])"
proof (intro conjI impI)
  assume a: "q \<in> set (snd (handleRequest fetch e r)) \<and> fetch q = Inr upstream"
  with handleRequest_sent [of fetch e r] have q: "q = telegramRequest r"
    by auto
  from a have "snd (handleRequest fetch e r) \<noteq> []" by auto
  then have tc: "handleRequest fetch e r = try_catch fetch r"
    by (rule handleRequest_dispatched)
  from a q have up: "fetch (telegramRequest r) = Inr upstream" by simp
  show "\<exists>resp. fst (handleRequest fetch e r) = Inr resp \<and>
         status resp = status upstream \<and>
         statusText resp = statusText upstream \<and>
         resp_body resp = resp_body upstream \<and>
         filter (\<lambda>(n, w). \<not> same_name n ''Access-Control-Allow-Origin'' \<and>
                            \<not> same_name n ''Access-Control-Allow-Methods'' \<and>
                            \<not> same_name n ''Access-Control-Allow-Headers'' \<and>
                            \<not> same_name n ''Access-Control-Max-Age'') (resp_headers resp)
         = filter (\<lambda>(n, w). \<not> same_name n ''Access-Control-Allow-Origin'' \<and>
                            \<not> same_name n ''Access-Control-Allow-Methods'' \<and>
                            \<not> same_name n ''Access-Control-Allow-Headers'' \<and>
                            \<not> same_name n ''Access-Control-Max-Age'') (resp_headers upstream)"
    by (simp add: tc try_catch_Inr [of fetch r, OF up] relay_other_headers)
next
  show "\<exists>resp. fst (handleRequest fetch e r) = Inr resp \<and>
      header_values (resp_headers resp) ''Access-Control-Allow-Origin'' = [''*''] \<and>
      header_values (resp_headers resp) ''Access-Control-Allow-Methods'' = [''GET, POST, PUT, DELETE, OPTIONS''] \<and>
      header_values (resp_headers resp) ''Access-Control-Allow-Headers'' = [''Content-Type, Authorization''] \<and>
      header_values (resp_headers resp) ''Access-Control-Max-Age'' = [''86400'']"
    by (rule cors_on_every_response)
qed

theorem relay_response_witness:
  \<open>telegramRequest (sample_request ''GET'' ''/botT1/getMe'')
     \<in> set (snd (handleRequest fetch_ok allow_T1_T2 (sample_request ''GET'' ''/botT1/getMe''))) \<and>
   fetch_ok (telegramRequest (sample_request ''GET'' ''/botT1/getMe'')) = Inr upstream_ok \<and>
   fst (handleRequest fetch_ok allow_T1_T2 (sample_request ''GET'' ''/botT1/getMe'')) =
     Inr \<lparr>status = 200, statusText = ''OK'',
          resp_headers = [(''content-type'', ''application/json''),
                          (''access-control-allow-origin'', ''*''),
                          (''Access-Control-Allow-Methods'', ''GET, POST, PUT, DELETE, OPTIONS''),
                          (''Access-Control-Allow-Headers'', ''Content-Type, Authorization''),
                          (''Access-Control-Max-Age'', ''86400'')],
          resp_body = Some ''{"ok":true}''\<rparr>\<close>
proof -
  let ?r = "sample_request ''GET'' ''/botT1/getMe''"
  have sent: "snd (handleRequest fetch_ok allow_T1_T2 ?r) = [telegramRequest ?r]"
    by code_simp
  have up: "fetch_ok (telegramRequest ?r) = Inr upstream_ok"
    by (simp add: fetch_ok_def)
  have hyp: "telegramRequest ?r \<in> set (snd (handleRequest fetch_ok allow_T1_T2 ?r)) \<and>
             fetch_ok (telegramRequest ?r) = Inr upstream_ok"
    using sent up by simp
  from relay_response [of "telegramRequest ?r" fetch_ok allow_T1_T2 ?r upstream_ok] hyp
  obtain resp where resp: "fst (handleRequest fetch_ok allow_T1_T2 ?r) = Inr resp"
    and st: "status resp = status upstream_ok" "statusText resp = statusText upstream_ok"
            "resp_body resp = resp_body upstream_ok"
    by blast
  have hd: "resp_headers (projr (fst (handleRequest fetch_ok allow_T1_T2 ?r))) =
        [(''content-type'', ''application/json''),
         (''access-control-allow-origin'', ''*''),
         (''Access-Control-Allow-Methods'', ''GET, POST, PUT, DELETE, OPTIONS''),
         (''Access-Control-Allow-Headers'', ''Content-Type, Authorization''),
         (''Access-Control-Max-Age'', ''86400'')]"
    by code_simp
  have \<open>resp = \<lparr>status = 200, statusText = ''OK'',
          resp_headers = [(''content-type'', ''application/json''),
                          (''access-control-allow-origin'', ''*''),
                          (''Access-Control-Allow-Methods'', ''GET, POST, PUT, DELETE, OPTIONS''),
                          (''Access-Control-Allow-Headers'', ''Content-Type, Authorization''),
                          (''Access-Control-Max-Age'', ''86400'')],
          resp_body = Some ''{"ok":true}''\<rparr>\<close>
    using st hd resp by (cases resp) (simp add: upstream_ok_def)
  with resp hyp show ?thesis by simp
qed

text \<open>
  C6. When the upstream call throws, the handler has sent exactly one request (there is
  no retry) and answers with status 502 and a JSON body whose \<open>error\<close> field is
  \<open>Failed to proxy request to Telegram\<close> and whose \<open>message\<close> field is a string literal
  that reads back as the message of the error.
\<close>

theorem bad_gateway_response:
  assumes "q \<in> set (snd (handleRequest fetch e r))" and "fetch q = Inl message"
  shows \<open>snd (handleRequest fetch e r) = [q] \<and>
         (\<exists>b. fst (handleRequest fetch e r) =
                 Inr \<lparr>status = 502, statusText = [],
                      resp_headers = [(''Content-Type'', ''application/json''),
                                      (''Access-Control-Allow-Origin'', ''*''),
                                      (''Access-Control-Allow-Methods'', ''GET, POST, PUT, DELETE, OPTIONS''),
                                      (''Access-Control-Allow-Headers'', ''Content-Type, Authorization''),
                                      (''Access-Control-Max-Age'', ''86400'')],
                      resp_body = Some (''{"error":"Failed to proxy request to Telegram","message":'' @ b)\<rparr> \<and>
               parse_json_string b = Some (message, ''}''))\<close>
proof -
  from assms(1) handleRequest_sent [of fetch e r]
  have q: "q = telegramRequest r" and sent: "snd (handleRequest fetch e r) = [q]"
    by auto
  from sent have tc: "handleRequest fetch e r = try_catch fetch r"
    by (intro handleRequest_dispatched) simp
  from assms(2) q have down: "fetch (telegramRequest r) = Inl message" by simp
  have resp: "fst (handleRequest fetch e r) = Inr (catch_block message)"
    by (simp add: tc try_catch_Inl [of fetch r, OF down])
  have shape: \<open>catch_block message =
      \<lparr>status = 502, statusText = [],
       resp_headers = [(''Content-Type'', ''application/json''),
                       (''Access-Control-Allow-Origin'', ''*''),
                       (''Access-Control-Allow-Methods'', ''GET, POST, PUT, DELETE, OPTIONS''),
                       (''Access-Control-Allow-Headers'', ''Content-Type, Authorization''),
                       (''Access-Control-Max-Age'', ''86400'')],
       resp_body = Some (''{"error":"Failed to proxy request to Telegram","message":'' @ (QuoteJSONString message @ ''}''))\<rparr>\<close>
    using catch_block_body [of message] by (simp add: catch_block_def corsHeaders_def)
  have "parse_json_string (QuoteJSONString message @ ''}'') = Some (message, ''}'')"
    by (rule parse_json_string_Quote)
  with resp shape sent show ?thesis by metis
qed

theorem bad_gateway_response_witness:
  \<open>telegramRequest (sample_request ''POST'' ''/botT1/sendMessage'')
     \<in> set (snd (handleRequest fetch_down no_allowlist (sample_request ''POST'' ''/botT1/sendMessage''))) \<and>
   fetch_down (telegramRequest (sample_request ''POST'' ''/botT1/sendMessage'')) = Inl ''connection refused'' \<and>
   status (projr (fst (handleRequest fetch_down no_allowlist (sample_request ''POST'' ''/botT1/sendMessage'')))) = 502 \<and>
   resp_body (projr (fst (handleRequest fetch_down no_allowlist (sample_request ''POST'' ''/botT1/sendMessage'')))) =
     Some ''{"error":"Failed to proxy request to Telegram","message":"connection refused"}''\<close>
proof -
  let ?r = "sample_request ''POST'' ''/botT1/sendMessage''"
  have sent: "snd (handleRequest fetch_down no_allowlist ?r) = [telegramRequest ?r]"
    by code_simp
  then have h: "telegramRequest ?r \<in> set (snd (handleRequest fetch_down no_allowlist ?r))"
    by simp
  have down: "fetch_down (telegramRequest ?r) = Inl ''connection refused''"
    by (simp add: fetch_down_def)
  from bad_gateway_response [OF h down]
  have st: "status (projr (fst (handleRequest fetch_down no_allowlist ?r))) = 502"
    by auto
  have b: \<open>resp_body (projr (fst (handleRequest fetch_down no_allowlist ?r))) =
     Some ''{"error":"Failed to proxy request to Telegram","message":"connection refused"}''\<close>
    by code_simp
  from h down st b show ?thesis by simp
qed

subsection \<open>Totality\<close>

text \<open>
  C10. For every request, configuration and upstream behaviour the handler returns a
  response and never throws: the response is one of the six outcomes (preflight, health,
  invalid path, token not allowed, upstream error, relayed upstream response).
\<close>

theorem always_responds:
  \<open>\<exists>resp sent. handleRequest fetch e r = (Inr resp, sent) \<and>
     (status resp = 200 \<and> resp_body resp = None \<and> sent = [] \<or>
      status resp = 200 \<and> sent = [] \<and>
        resp_body resp = Some ''{"status":"ok","service":"telegram-api-proxy","usage":"Replace api.telegram.org with this worker URL"}'' \<or>
      status resp = 400 \<and> sent = [] \<and>
        resp_body resp = Some ''{"error":"Invalid path. Expected /bot<token>/<method>","example":"/botYOUR_TOKEN/sendMessage"}'' \<or>
      status resp = 403 \<and> sent = [] \<and>
        resp_body resp = Some ''{"error":"Token not in allowlist"}'' \<or>
      (\<exists>message. fetch (telegramRequest r) = Inl message \<and> sent = [telegramRequest r] \<and>
         status resp = 502 \<and>
         resp_body resp = Some (''{"error":"Failed to proxy request to Telegram","message":'' @ QuoteJSONString message @ ''}'')) \<or>
      (\<exists>upstream. fetch (telegramRequest r) = Inr upstream \<and> sent = [telegramRequest r] \<and>
         status resp = status upstream \<and> statusText resp = statusText upstream \<and>
         resp_body resp = resp_body upstream))\<close>
proof (cases "snd (handleRequest fetch e r) = []")
  case True
  then show ?thesis
    by (auto simp: handleRequest_def try_catch_sent health_body invalid_path_body forbidden_body
             split: if_splits)
next
  case False
  then have tc: "handleRequest fetch e r = try_catch fetch r"
    by (rule handleRequest_dispatched)
  show ?thesis
  proof (cases "fetch (telegramRequest r)")
    case (Inl message)
    show ?thesis
      using catch_block_body [of message]
      by (simp add: tc try_catch_Inl [of fetch r, OF Inl] Inl) (simp add: catch_block_def)
  next
    case (Inr upstream)
    show ?thesis
      by (simp add: tc try_catch_Inr [of fetch r, OF Inr] Inr)
  qed
qed

theorem always_responds_witness:
  "fst (handleRequest fetch_down no_allowlist (sample_request ''POST'' ''/botT1/sendMessage'')) \<noteq> Inl ''connection refused'' \<and>
   status (projr (fst (handleRequest fetch_down no_allowlist (sample_request ''POST'' ''/botT1/sendMessage'')))) = 502"
proof -
  let ?r = "sample_request ''POST'' ''/botT1/sendMessage''"
  have down: "fetch_down (telegramRequest ?r) = Inl ''connection refused''"
    by (simp add: fetch_down_def)
  have sent: "snd (handleRequest fetch_down no_allowlist ?r) = [telegramRequest ?r]"
    by code_simp
  from always_responds [of fetch_down no_allowlist ?r]
  obtain resp where "fst (handleRequest fetch_down no_allowlist ?r) = Inr resp" "status resp = 502"
    using down sent by auto
  then show ?thesis by simp
qed

end
